theory Spec2Isabelle
  imports Complex_Main "HOL-Library.Log_Nat"
begin

section \<open>JavaScript numbers\<close>

text \<open>
  The visualizer (\<^verbatim>\<open>sphere_visualizer.js\<close>) keeps its energies in JavaScript numbers.
  A number is modelled as a finite value, one of the two infinities, or \<open>NaN\<close>. The
  operations \<open>js_add\<close>, \<open>js_sub\<close> and \<open>js_mul\<close> are exact on finite values, and the
  sign of zero is not modelled. Rounding to the nearest double is a function of its
  own, \<open>double_round\<close>, applied where the code truncates a result to a whole number
  (in \<^verbatim>\<open>resize\<close>), since there the rounding decides the outcome. The special values
  follow ECMAScript: \<open>NaN\<close> is absorbing for the arithmetic and for
  \<^verbatim>\<open>Math.min\<close>/\<^verbatim>\<open>Math.max\<close>, and every comparison with \<open>NaN\<close> is false.
\<close>

datatype jsnum = Num real | PInf | NInf | NaN

fun js_neg :: "jsnum \<Rightarrow> jsnum" where
  "js_neg (Num a) = Num (- a)"
| "js_neg PInf = NInf"
| "js_neg NInf = PInf"
| "js_neg NaN = NaN"

fun js_add :: "jsnum \<Rightarrow> jsnum \<Rightarrow> jsnum" where
  "js_add NaN _ = NaN"
| "js_add _ NaN = NaN"
| "js_add (Num a) (Num b) = Num (a + b)"
| "js_add PInf NInf = NaN"
| "js_add NInf PInf = NaN"
| "js_add PInf _ = PInf"
| "js_add _ PInf = PInf"
| "js_add NInf _ = NInf"
| "js_add _ NInf = NInf"

definition js_sub :: "jsnum \<Rightarrow> jsnum \<Rightarrow> jsnum" where
  "js_sub a b = js_add a (js_neg b)"

fun js_mul :: "jsnum \<Rightarrow> jsnum \<Rightarrow> jsnum" where
  "js_mul NaN _ = NaN"
| "js_mul _ NaN = NaN"
| "js_mul (Num a) (Num b) = Num (a * b)"
| "js_mul (Num a) PInf = (if a = 0 then NaN else if 0 < a then PInf else NInf)"
| "js_mul (Num a) NInf = (if a = 0 then NaN else if 0 < a then NInf else PInf)"
| "js_mul PInf (Num b) = (if b = 0 then NaN else if 0 < b then PInf else NInf)"
| "js_mul NInf (Num b) = (if b = 0 then NaN else if 0 < b then NInf else PInf)"
| "js_mul PInf PInf = PInf"
| "js_mul PInf NInf = NInf"
| "js_mul NInf PInf = NInf"
| "js_mul NInf NInf = PInf"

text \<open>The comparisons \<^verbatim>\<open><\<close> and \<^verbatim>\<open><=\<close>.\<close>

fun js_lt :: "jsnum \<Rightarrow> jsnum \<Rightarrow> bool" where
  "js_lt NaN _ = False"
| "js_lt _ NaN = False"
| "js_lt (Num a) (Num b) = (a < b)"
| "js_lt _ NInf = False"
| "js_lt PInf _ = False"
| "js_lt NInf _ = True"
| "js_lt _ PInf = True"

fun js_le :: "jsnum \<Rightarrow> jsnum \<Rightarrow> bool" where
  "js_le NaN _ = False"
| "js_le _ NaN = False"
| "js_le (Num a) (Num b) = (a \<le> b)"
| "js_le NInf _ = True"
| "js_le _ PInf = True"
| "js_le _ NInf = False"
| "js_le PInf _ = False"

text \<open>\<^verbatim>\<open>Math.max(a, b)\<close> and \<^verbatim>\<open>Math.min(a, b)\<close>: \<open>NaN\<close> as soon as one argument is.\<close>

fun js_max :: "jsnum \<Rightarrow> jsnum \<Rightarrow> jsnum" where
  "js_max NaN _ = NaN"
| "js_max _ NaN = NaN"
| "js_max a b = (if js_lt a b then b else a)"

fun js_min :: "jsnum \<Rightarrow> jsnum \<Rightarrow> jsnum" where
  "js_min NaN _ = NaN"
| "js_min _ NaN = NaN"
| "js_min a b = (if js_lt b a then b else a)"

text \<open>Truthiness of a number, as \<^verbatim>\<open>x || 1\<close> tests it: \<open>0\<close> and \<open>NaN\<close> are falsy.\<close>

fun js_truthy :: "jsnum \<Rightarrow> bool" where
  "js_truthy (Num a) = (a \<noteq> 0)"
| "js_truthy NaN = False"
| "js_truthy _ = True"

text \<open>The value of a finite number (0 for the others).\<close>

fun num_value :: "jsnum \<Rightarrow> real" where
  "num_value (Num r) = r"
| "num_value _ = 0"

subsection \<open>Rounding to a double\<close>

text \<open>
  A double has 53 significant bits: a real \<open>x\<close> with \<open>2^e <= |x| < 2^(e+1)\<close> is
  rounded to the nearest multiple of \<open>2^(e-52)\<close>, a tie going to the even multiple.
  Below \<open>2^-1022\<close> the spacing stays \<open>2^-1074\<close>, and a result of \<open>2^1024\<close> or more
  is an infinity. \<open>ilog2 a\<close> is the exponent \<open>e\<close> of a positive \<open>a\<close>, computed from
  the bit length of an integer.
\<close>

definition round_even :: "real \<Rightarrow> int" where
  "round_even x =
     (let f = \<lfloor>x\<rfloor>; r = x - of_int f
      in if r < 1 / 2 then f else if 1 / 2 < r then f + 1 else if even f then f else f + 1)"

definition pow2 :: "int \<Rightarrow> real" where
  "pow2 k = (if 0 \<le> k then 2 ^ nat k else 1 / 2 ^ nat (- k))"

definition ilog2 :: "real \<Rightarrow> int" where
  "ilog2 a = (if 1 \<le> a then bitlen \<lfloor>a\<rfloor> - 1 else - bitlen (\<lceil>1 / a\<rceil> - 1))"

definition double_round :: "real \<Rightarrow> jsnum" where
  "double_round x =
     (if x = 0 then Num 0
      else let a = \<bar>x\<bar>;
               e = max (ilog2 a) (- 1022);
               q = pow2 (e - 52);
               y = of_int (round_even (a / q)) * q
           in if 2 ^ 1024 \<le> y then (if 0 < x then PInf else NInf)
              else Num (if 0 < x then y else - y))"

fun js_double :: "jsnum \<Rightarrow> jsnum" where
  "js_double (Num r) = double_round r"
| "js_double x = x"

text \<open>The energy range of the data model: a number \<open>x\<close> with \<open>0 <= x\<close> and \<open>x <= 1\<close>.\<close>

definition in_unit :: "jsnum \<Rightarrow> bool" where
  "in_unit x = (js_le (Num 0) x \<and> js_le x (Num 1))"

section \<open>The state of the visualizer\<close>

text \<open>
  The module-level variables of the closure (\<^verbatim>\<open>time\<close>, \<^verbatim>\<open>dpr\<close>, \<^verbatim>\<open>ttsEnergy\<close>,
  \<^verbatim>\<open>ttsEnergySmooth\<close>, \<^verbatim>\<open>ttsActive\<close>, \<^verbatim>\<open>ttsSimInterval\<close>), together with what the
  code reads and writes in its environment: the set \<open>timers\<close> of the interval timers
  of the browser that run the pulse callback, and the size attributes of the canvas
  (\<^verbatim>\<open>canvas.width\<close>, \<^verbatim>\<open>canvas.height\<close>, \<^verbatim>\<open>canvas.style.width\<close>,
  \<^verbatim>\<open>canvas.style.height\<close>; a style size is kept as the number in front of
  \<^verbatim>\<open>"px"\<close>, and is \<open>None\<close> while the style is not set). \<^verbatim>\<open>time\<close> only ever holds
  finite values (it starts at 0 and grows by 0.006), so it is a real. A timer handle
  is a number, \<^verbatim>\<open>null\<close> is \<open>None\<close>. The pixels painted by \<^verbatim>\<open>draw\<close>, the transform
  of the 2D context and \<^verbatim>\<open>animId\<close> are written but never read back by the functions
  below, and are left out. The model is of a page that has the canvas: without it the
  closure returns at once and defines nothing.
\<close>

record state =
  time :: real
  dpr :: jsnum
  ttsEnergy :: jsnum
  ttsEnergySmooth :: jsnum
  ttsActive :: bool
  ttsSimInterval :: "nat option"
  timers :: "nat set"
  canvas_width :: nat
  canvas_height :: nat
  style_width :: "int option"
  style_height :: "int option"

text \<open>
  The variables as the closure declares them: \<open>d\<close> is \<^verbatim>\<open>window.devicePixelRatio\<close>,
  which the browser holds as a double, so that the code reads \<open>js_double d\<close>.
  The canvas is taken with the default size of the element, 300 by 150, and no style
  size; \<^verbatim>\<open>resize\<close> overwrites all four before any other function can run.
\<close>

definition initial :: "jsnum \<Rightarrow> state" where
  "initial d =
     \<lparr> time = 0,
       dpr = (if js_truthy (js_double d) then js_double d else Num 1),
       ttsEnergy = Num 0,
       ttsEnergySmooth = Num 0,
       ttsActive = False,
       ttsSimInterval = None,
       timers = {},
       canvas_width = 300,
       canvas_height = 150,
       style_width = None,
       style_height = None \<rparr>"

section \<open>The global API\<close>

text \<open>The argument of \<^verbatim>\<open>sphereSetTTSActive\<close> is a boolean, that of \<^verbatim>\<open>sphereSetTTSEnergy\<close> a number.\<close>

definition sphereSetTTSActive :: "bool \<Rightarrow> state \<Rightarrow> state" where
  "sphereSetTTSActive active s =
     (let s1 = s\<lparr>ttsActive := active\<rparr>
      in if \<not> active then s1\<lparr>ttsEnergy := Num 0\<rparr> else s1)"

definition sphereSetTTSEnergy :: "jsnum \<Rightarrow> state \<Rightarrow> state" where
  "sphereSetTTSEnergy energy s =
     s\<lparr>ttsEnergy := js_min (Num 1) (js_max (Num 0) energy)\<rparr>"

text \<open>
  \<^verbatim>\<open>if (ttsSimInterval)\<close> tests the handle for truthiness: \<^verbatim>\<open>null\<close> and \<open>0\<close> are
  falsy. \<^verbatim>\<open>clearInterval(h)\<close> removes the timer \<open>h\<close> (and does nothing when there is
  none).
\<close>

fun handle_truthy :: "nat option \<Rightarrow> bool" where
  "handle_truthy None = False"
| "handle_truthy (Some h) = (h \<noteq> 0)"

definition clearInterval :: "nat option \<Rightarrow> state \<Rightarrow> state" where
  "clearInterval i s =
     (case i of None \<Rightarrow> s | Some h \<Rightarrow> s\<lparr>timers := timers s - {h}\<rparr>)"

text \<open>
  \<^verbatim>\<open>sphereStartTTSPulse\<close>: \<open>h\<close> is the handle that \<^verbatim>\<open>setInterval\<close> returns for the
  new timer.
\<close>

definition sphereStartTTSPulse :: "nat \<Rightarrow> state \<Rightarrow> state" where
  "sphereStartTTSPulse h s =
     (let s1 = s\<lparr>ttsActive := True\<rparr>;
          s2 = (if handle_truthy (ttsSimInterval s1)
                then clearInterval (ttsSimInterval s1) s1 else s1)
      in s2\<lparr>timers := insert h (timers s2), ttsSimInterval := Some h\<rparr>)"

text \<open>
  The callback of the timer, run every 80 ms: \<open>rnd\<close> is the value of
  \<^verbatim>\<open>Math.random()\<close> and \<open>now\<close> that of \<^verbatim>\<open>Date.now()\<close>, in milliseconds.
\<close>

definition pulse_tick :: "real \<Rightarrow> int \<Rightarrow> state \<Rightarrow> state" where
  "pulse_tick rnd now s =
     s\<lparr>ttsEnergy := Num (0.3 + rnd * 0.5 + sin (real_of_int now / 200) * 0.2)\<rparr>"

definition sphereStopTTSPulse :: "state \<Rightarrow> state" where
  "sphereStopTTSPulse s =
     (let s1 = s\<lparr>ttsActive := False\<rparr>;
          s2 = s1\<lparr>ttsEnergy := Num 0\<rparr>
      in if handle_truthy (ttsSimInterval s2)
         then (clearInterval (ttsSimInterval s2) s2)\<lparr>ttsSimInterval := None\<rparr>
         else s2)"

section \<open>Resize\<close>

text \<open>
  \<^verbatim>\<open>canvas.width\<close> and \<^verbatim>\<open>canvas.height\<close> are attributes of type
  \<^verbatim>\<open>unsigned long\<close>. An assignment converts the number as Web IDL says (\<open>NaN\<close> and the
  infinities become 0, a finite value is truncated towards zero and taken modulo
  \<open>2^32\<close>), and a value above \<open>2^31 - 1\<close> is replaced by the default of the attribute.
\<close>

definition trunc_real :: "real \<Rightarrow> int" where
  "trunc_real r = (if 0 \<le> r then \<lfloor>r\<rfloor> else - \<lfloor>- r\<rfloor>)"

fun to_unsigned_long :: "jsnum \<Rightarrow> nat" where
  "to_unsigned_long (Num r) = nat (trunc_real r mod 2 ^ 32)"
| "to_unsigned_long _ = 0"

definition set_canvas_dim :: "nat \<Rightarrow> jsnum \<Rightarrow> nat" where
  "set_canvas_dim dflt v =
     (let n = to_unsigned_long v in if n \<le> 2147483647 then n else dflt)"

text \<open>
  \<open>d\<close> is \<^verbatim>\<open>window.devicePixelRatio\<close>, read as the double \<open>js_double d\<close>; \<open>cw\<close>
  and \<open>ch\<close> are \<^verbatim>\<open>container.clientWidth\<close> and \<^verbatim>\<open>container.clientHeight\<close>
  (integers, which are doubles as they are). The product \<^verbatim>\<open>size * dpr\<close> is a double
  multiplication: the exact product rounded to the nearest double, and it is this
  double that the canvas truncates. The canvas was found in the document, so its
  parent element exists and no statement of \<^verbatim>\<open>resize\<close> throws.
\<close>

definition resize :: "jsnum \<Rightarrow> int \<Rightarrow> int \<Rightarrow> state \<Rightarrow> state" where
  "resize d cw ch s =
     (let s1 = s\<lparr>dpr := (if js_truthy (js_double d) then js_double d else Num 1)\<rparr>;
          size = min cw (min ch 420)
      in s1\<lparr>canvas_width :=
              set_canvas_dim 300 (js_double (js_mul (Num (of_int size)) (dpr s1))),
            canvas_height :=
              set_canvas_dim 150 (js_double (js_mul (Num (of_int size)) (dpr s1))),
            style_width := Some size,
            style_height := Some size\<rparr>)"

section \<open>The render loop\<close>

text \<open>
  One frame of \<^verbatim>\<open>draw\<close>: the two assignments to the state at its head. What follows
  them in the source only reads \<^verbatim>\<open>time\<close>, \<^verbatim>\<open>ttsEnergySmooth\<close> and the canvas size,
  paints, and asks for the next frame.
\<close>

definition draw :: "state \<Rightarrow> state" where
  "draw s =
     (let s1 = s\<lparr>time := time s + 0.006\<rparr>;
          targetEnergy = (if ttsActive s1 then ttsEnergy s1 else Num 0)
      in s1\<lparr>ttsEnergySmooth :=
              js_add (ttsEnergySmooth s1)
                (js_mul (js_sub targetEnergy (ttsEnergySmooth s1)) (Num 0.12))\<rparr>)"

text \<open>The handler of \<^verbatim>\<open>beforeunload\<close>: the timer is cleared, the handle is kept.\<close>

definition beforeunload :: "state \<Rightarrow> state" where
  "beforeunload s =
     (if handle_truthy (ttsSimInterval s) then clearInterval (ttsSimInterval s) s else s)"

text \<open>
  Loading the script runs the closure to its end: the variables are declared,
  \<^verbatim>\<open>resize()\<close> is called once and \<^verbatim>\<open>draw()\<close> starts the animation. \<open>cw\<close> and \<open>ch\<close>
  are the client size of the container at that moment.
\<close>

definition startup :: "jsnum \<Rightarrow> int \<Rightarrow> int \<Rightarrow> state" where
  "startup d cw ch = draw (resize d cw ch (initial d))"

text \<open>
  The states the page can be in: the script is loaded, and then the API functions, the
  timer callback (while a timer is active), the resize handler, frames and the unload
  handler run in any order. \<^verbatim>\<open>setInterval\<close> returns a positive handle;
  \<^verbatim>\<open>Math.random()\<close> lies in \<open>[0, 1)\<close>; a client size is not negative.
\<close>

inductive reachable :: "state \<Rightarrow> bool" where
  r_startup: "0 \<le> cw \<Longrightarrow> 0 \<le> ch \<Longrightarrow> reachable (startup d cw ch)"
| r_active: "reachable s \<Longrightarrow> reachable (sphereSetTTSActive a s)"
| r_energy: "reachable s \<Longrightarrow> reachable (sphereSetTTSEnergy x s)"
| r_start: "reachable s \<Longrightarrow> 0 < h \<Longrightarrow> reachable (sphereStartTTSPulse h s)"
| r_stop: "reachable s \<Longrightarrow> reachable (sphereStopTTSPulse s)"
| r_tick: "reachable s \<Longrightarrow> timers s \<noteq> {} \<Longrightarrow> 0 \<le> rnd \<Longrightarrow> rnd < 1 \<Longrightarrow>
    reachable (pulse_tick rnd now s)"
| r_resize: "reachable s \<Longrightarrow> 0 \<le> cw \<Longrightarrow> 0 \<le> ch \<Longrightarrow> reachable (resize d cw ch s)"
| r_draw: "reachable s \<Longrightarrow> reachable (draw s)"
| r_unload: "reachable s \<Longrightarrow> reachable (beforeunload s)"

section \<open>Predicates of the specification\<close>

text \<open>
  The clamp of the specification, \<open>clamp(x, lo, hi)\<close>: the point of \<open>[lo, hi]\<close> nearest
  to \<open>x\<close>. Its value always lies in \<open>[lo, hi]\<close>.
\<close>

definition clamp_spec :: "real \<Rightarrow> real \<Rightarrow> real \<Rightarrow> real" where
  "clamp_spec x lo hi = max lo (min hi x)"

text \<open>The invariant of the data model: both energies lie in \<open>[0, 1]\<close>.\<close>

definition energy_inv :: "state \<Rightarrow> bool" where
  "energy_inv s = (in_unit (ttsEnergy s) \<and> in_unit (ttsEnergySmooth s))"

text \<open>
  Every active pulse timer is the one \<^verbatim>\<open>ttsSimInterval\<close> names, and a handle that is
  kept is not 0.
\<close>

definition handle_inv :: "state \<Rightarrow> bool" where
  "handle_inv s =
     (timers s \<subseteq> (case ttsSimInterval s of None \<Rightarrow> {} | Some h \<Rightarrow> {h}) \<and>
      ttsSimInterval s \<noteq> Some 0)"

section \<open>Arithmetic of the numbers\<close>

lemma js_sub_Num [simp]: "js_sub (Num a) (Num b) = Num (a - b)"
  by (simp add: js_sub_def)

lemma in_unit_Num [simp]: "in_unit (Num r) = (0 \<le> r \<and> r \<le> 1)"
  by (simp add: in_unit_def)

lemma in_unit_NaN [simp]: "\<not> in_unit NaN"
  by (simp add: in_unit_def)

lemma in_unitE: "in_unit x \<Longrightarrow> \<exists>r. x = Num r \<and> 0 \<le> r \<and> r \<le> 1"
  by (cases x) (simp_all add: in_unit_def)

text \<open>
  The two nested calls of \<^verbatim>\<open>sphereSetTTSEnergy\<close> are the clamp on every finite value,
  send the infinities to the bounds, and let \<open>NaN\<close> through.
\<close>

lemma js_clamp_Num: "js_min (Num 1) (js_max (Num 0) (Num r)) = Num (clamp_spec r 0 1)"
  by (simp add: clamp_spec_def max_def min_def)

lemma js_clamp_inf:
  "js_min (Num 1) (js_max (Num 0) PInf) = Num 1"
  "js_min (Num 1) (js_max (Num 0) NInf) = Num 0"
  by simp_all

lemma js_clamp_NaN: "js_min (Num 1) (js_max (Num 0) NaN) = NaN"
  by simp

lemma clamp_spec_range: "lo \<le> hi \<Longrightarrow> lo \<le> clamp_spec x lo hi \<and> clamp_spec x lo hi \<le> hi"
  by (simp add: clamp_spec_def)

lemma js_clamp_unit: "x \<noteq> NaN \<Longrightarrow> in_unit (js_min (Num 1) (js_max (Num 0) x))"
  by (cases x) (simp_all add: in_unit_def)

text \<open>A smoothing step is a convex combination of the old value and the target.\<close>

lemma smooth_step_bounds:
  fixes p t :: real
  assumes "0 \<le> p" "p \<le> 1" "0 \<le> t" "t \<le> 1"
  shows "0 \<le> p + (t - p) * 0.12" "p + (t - p) * 0.12 \<le> 1"
proof -
  have e: "p + (t - p) * 0.12 = (22 * p + 3 * t) / 25" by (simp add: field_simps)
  have "0 \<le> 22 * p + 3 * t" "22 * p + 3 * t \<le> 25" using assms by linarith+
  then show "0 \<le> p + (t - p) * 0.12" "p + (t - p) * 0.12 \<le> 1"
    unfolding e by simp_all
qed

text \<open>The synthetic pulse lies between 0.1 and 1, whatever the clock says.\<close>

lemma pulse_value_bounds:
  fixes rnd x :: real
  assumes "0 \<le> rnd" "rnd < 1"
  shows "0.1 \<le> 0.3 + rnd * 0.5 + sin x * 0.2" "0.3 + rnd * 0.5 + sin x * 0.2 < 1"
  using assms sin_ge_minus_one [of x] sin_le_one [of x] by linarith+

section \<open>The energy range\<close>

lemma energy_inv_initial: "energy_inv (initial d)"
  by (simp add: energy_inv_def initial_def)

lemma energy_inv_active: "energy_inv s \<Longrightarrow> energy_inv (sphereSetTTSActive a s)"
  by (simp add: energy_inv_def sphereSetTTSActive_def Let_def)

lemma energy_inv_energy:
  "x \<noteq> NaN \<Longrightarrow> energy_inv s \<Longrightarrow> energy_inv (sphereSetTTSEnergy x s)"
  by (simp add: energy_inv_def sphereSetTTSEnergy_def js_clamp_unit)

lemma energy_inv_start: "energy_inv s \<Longrightarrow> energy_inv (sphereStartTTSPulse h s)"
  by (simp add: energy_inv_def sphereStartTTSPulse_def clearInterval_def Let_def
        split: option.splits)

lemma energy_inv_stop: "energy_inv s \<Longrightarrow> energy_inv (sphereStopTTSPulse s)"
  by (simp add: energy_inv_def sphereStopTTSPulse_def clearInterval_def Let_def
        split: option.splits)

lemma energy_inv_tick:
  "0 \<le> rnd \<Longrightarrow> rnd < 1 \<Longrightarrow> energy_inv s \<Longrightarrow> energy_inv (pulse_tick rnd now s)"
  using pulse_value_bounds [of rnd "real_of_int now / 200"]
  by (simp add: energy_inv_def pulse_tick_def)

lemma energy_inv_resize: "energy_inv s \<Longrightarrow> energy_inv (resize d cw ch s)"
  by (simp add: energy_inv_def resize_def Let_def)

lemma energy_inv_unload: "energy_inv s \<Longrightarrow> energy_inv (beforeunload s)"
  by (simp add: energy_inv_def beforeunload_def clearInterval_def split: option.splits)

lemma energy_inv_draw:
  assumes "energy_inv s"
  shows "energy_inv (draw s)"
proof -
  from assms obtain e p where e: "ttsEnergy s = Num e" "0 \<le> e" "e \<le> 1"
    and p: "ttsEnergySmooth s = Num p" "0 \<le> p" "p \<le> 1"
    unfolding energy_inv_def by (blast dest: in_unitE)
  show ?thesis
  proof (cases "ttsActive s")
    case True
    with e p smooth_step_bounds [of p e] show ?thesis
      by (simp add: energy_inv_def draw_def Let_def)
  next
    case False
    with e p smooth_step_bounds [of p 0] show ?thesis
      by (simp add: energy_inv_def draw_def Let_def)
  qed
qed

lemma energy_inv_startup: "energy_inv (startup d cw ch)"
  unfolding startup_def by (intro energy_inv_draw energy_inv_resize energy_inv_initial)

text \<open>
  Every function keeps both energies in \<open>[0, 1]\<close> as long as no \<open>NaN\<close> is passed to
  \<^verbatim>\<open>sphereSetTTSEnergy\<close>; the pulse needs no clamp, by \<open>pulse_value_bounds\<close>.
\<close>

lemma energy_inv_preserved:
  assumes "energy_inv s"
  shows "energy_inv (sphereSetTTSActive a s)"
    and "x \<noteq> NaN \<Longrightarrow> energy_inv (sphereSetTTSEnergy x s)"
    and "energy_inv (sphereStartTTSPulse h s)"
    and "energy_inv (sphereStopTTSPulse s)"
    and "0 \<le> rnd \<Longrightarrow> rnd < 1 \<Longrightarrow> energy_inv (pulse_tick rnd now s)"
    and "energy_inv (resize d cw ch s)"
    and "energy_inv (draw s)"
    and "energy_inv (beforeunload s)"
  using assms
  by (simp_all add: energy_inv_active energy_inv_energy energy_inv_start energy_inv_stop
        energy_inv_tick energy_inv_resize energy_inv_draw energy_inv_unload)

text \<open>The smoothing assignment cannot repair a smoothed energy that is \<open>NaN\<close>.\<close>

lemma smooth_NaN_sticky: "ttsEnergySmooth s = NaN \<Longrightarrow> ttsEnergySmooth (draw s) = NaN"
  by (simp add: draw_def Let_def)

section \<open>Frames under a constant target\<close>







section \<open>Timer handles\<close>

lemma handle_inv_startup: "handle_inv (startup d cw ch)"
  by (simp add: handle_inv_def startup_def draw_def resize_def initial_def Let_def)

lemma reachable_handle_inv: "reachable s \<Longrightarrow> handle_inv s"
proof (induction rule: reachable.induct)
  case (r_startup cw ch d)
  show ?case by (rule handle_inv_startup)
next
  case (r_active s a)
  then show ?case by (simp add: handle_inv_def sphereSetTTSActive_def Let_def)
next
  case (r_energy s x)
  then show ?case by (simp add: handle_inv_def sphereSetTTSEnergy_def)
next
  case (r_start s h)
  then show ?case
    by (auto simp: handle_inv_def sphereStartTTSPulse_def clearInterval_def Let_def
          split: option.splits)
next
  case (r_stop s)
  then show ?case
    by (auto simp: handle_inv_def sphereStopTTSPulse_def clearInterval_def Let_def
          split: option.splits)
next
  case (r_tick s rnd now)
  then show ?case by (simp add: handle_inv_def pulse_tick_def)
next
  case (r_resize s cw ch d)
  then show ?case by (simp add: handle_inv_def resize_def Let_def)
next
  case (r_draw s)
  then show ?case by (simp add: handle_inv_def draw_def Let_def)
next
  case (r_unload s)
  then show ?case
    by (auto simp: handle_inv_def beforeunload_def clearInterval_def split: option.splits)
qed

lemma handle_inv_finite: "handle_inv s \<Longrightarrow> finite (timers s)"
  by (cases "ttsSimInterval s") (auto simp: handle_inv_def intro: finite_subset)

lemma handle_inv_card:
  assumes "handle_inv s"
  shows "card (timers s) \<le> 1"
proof -
  from assms have sub: "timers s \<subseteq> (case ttsSimInterval s of None \<Rightarrow> {} | Some h \<Rightarrow> {h})"
    by (simp add: handle_inv_def)
  show ?thesis
  proof (cases "ttsSimInterval s")
    case None
    with sub show ?thesis by simp
  next
    case (Some h)
    with sub have "timers s \<subseteq> {h}" by simp
    then have "card (timers s) \<le> card {h}" by (intro card_mono) simp_all
    then show ?thesis by simp
  qed
qed

lemma handle_inv_start: "handle_inv s \<Longrightarrow> timers (sphereStartTTSPulse h s) = {h}"
  by (auto simp: handle_inv_def sphereStartTTSPulse_def clearInterval_def Let_def
        split: option.splits)

lemma handle_inv_stop:
  "handle_inv s \<Longrightarrow>
     ttsSimInterval (sphereStopTTSPulse s) = None \<and> timers (sphereStopTTSPulse s) = {}"
  by (auto simp: handle_inv_def sphereStopTTSPulse_def clearInterval_def Let_def
        split: option.splits)

lemma stop_twice: "sphereStopTTSPulse (sphereStopTTSPulse s) = sphereStopTTSPulse s"
  by (cases "ttsSimInterval s")
     (simp_all add: sphereStopTTSPulse_def clearInterval_def Let_def)

lemma reachable_started: "reachable (sphereStartTTSPulse 1 (startup (Num 1) 300 300))"
  by (rule r_start [OF r_startup]) simp_all

section \<open>The closed form of the smoothing\<close>








section \<open>Properties of the rounding\<close>

text \<open>
  The rounded value of a positive real below \<open>2^53\<close> lies between the real rounded
  down and rounded up to a whole number, so a whole number is its own double.
\<close>

lemma round_even_bounds: "\<lfloor>x\<rfloor> \<le> round_even x \<and> round_even x \<le> \<lceil>x\<rceil>"
proof -
  have "\<lfloor>x\<rfloor> + 1 \<le> \<lceil>x\<rceil>" if "0 < x - of_int \<lfloor>x\<rfloor>"
  proof -
    from that have "of_int \<lfloor>x\<rfloor> < x" by simp
    then have "\<lfloor>x\<rfloor> < \<lceil>x\<rceil>" by (simp add: less_ceiling_iff)
    then show ?thesis by simp
  qed
  moreover have "\<lfloor>x\<rfloor> \<le> \<lceil>x\<rceil>" by (rule floor_le_ceiling)
  ultimately show ?thesis by (auto simp: round_even_def Let_def)
qed

lemma pow2_pos: "0 < pow2 k"
  by (simp add: pow2_def)

lemma ilog2_le:
  assumes "0 < a" "a < 2 ^ 53"
  shows "ilog2 a \<le> 52"
proof (cases "1 \<le> a")
  case True
  have "\<lfloor>a\<rfloor> < 2 ^ 53" using assms(2) by (simp add: floor_less_iff)
  then have "bitlen \<lfloor>a\<rfloor> \<le> 53" by (simp add: bitlen_le_iff_power)
  with True show ?thesis by (simp add: ilog2_def)
next
  case False
  have "0 \<le> bitlen (\<lceil>1 / a\<rceil> - 1)" by (rule bitlen_nonneg)
  with False show ?thesis by (simp add: ilog2_def)
qed

lemma double_round_between:
  assumes "0 < x" "x < 2 ^ 53"
  shows "\<exists>y. double_round x = Num y \<and> of_int \<lfloor>x\<rfloor> \<le> y \<and> y \<le> of_int \<lceil>x\<rceil>"
proof -
  define e where "e = max (ilog2 x) (- 1022)"
  define j where "j = nat (52 - e)"
  define m where "m = round_even (x * 2 ^ j)"
  define y where "y = real_of_int m / 2 ^ j"
  have e: "e \<le> 52" using ilog2_le [OF assms] by (simp add: e_def)
  then have q: "pow2 (e - 52) = 1 / 2 ^ j"
    by (cases "e = 52") (simp_all add: pow2_def j_def)
  have lo: "\<lfloor>x\<rfloor> * 2 ^ j \<le> m"
  proof -
    have "real_of_int (\<lfloor>x\<rfloor> * 2 ^ j) \<le> x * 2 ^ j" by simp
    then have "\<lfloor>x\<rfloor> * 2 ^ j \<le> \<lfloor>x * 2 ^ j\<rfloor>" by (simp only: le_floor_iff)
    with round_even_bounds [of "x * 2 ^ j"] show ?thesis by (simp add: m_def)
  qed
  have hi: "m \<le> \<lceil>x\<rceil> * 2 ^ j"
  proof -
    have "x * 2 ^ j \<le> real_of_int (\<lceil>x\<rceil> * 2 ^ j)" by simp
    then have "\<lceil>x * 2 ^ j\<rceil> \<le> \<lceil>x\<rceil> * 2 ^ j" by (simp only: ceiling_le_iff)
    with round_even_bounds [of "x * 2 ^ j"] show ?thesis by (simp add: m_def)
  qed
  have ylo: "of_int \<lfloor>x\<rfloor> \<le> y"
  proof -
    have "real_of_int (\<lfloor>x\<rfloor> * 2 ^ j) \<le> real_of_int m" using lo by (simp only: of_int_le_iff)
    then show ?thesis by (simp add: y_def field_simps)
  qed
  have yhi: "y \<le> of_int \<lceil>x\<rceil>"
  proof -
    have "real_of_int m \<le> real_of_int (\<lceil>x\<rceil> * 2 ^ j)" using hi by (simp only: of_int_le_iff)
    then show ?thesis by (simp add: y_def field_simps)
  qed
  have "\<lceil>x\<rceil> \<le> 2 ^ 53" using assms(2) by (simp add: ceiling_le_iff)
  then have "real_of_int \<lceil>x\<rceil> \<le> 2 ^ 53" by (metis of_int_le_iff of_int_numeral of_int_power)
  with yhi have "y \<le> 2 ^ 53" by linarith
  moreover have "(2::real) ^ 53 < 2 ^ 1024" by simp
  ultimately have fin: "\<not> 2 ^ 1024 \<le> y" by linarith
  have "double_round x = Num y"
    using assms(1) fin q
    by (simp add: double_round_def Let_def e_def [symmetric] y_def m_def)
  with ylo yhi show ?thesis by blast
qed

lemma double_round_whole:
  assumes "x \<in> \<int>" "0 \<le> x" "x < 2 ^ 53"
  shows "double_round x = Num x"
proof (cases "x = 0")
  case True
  then show ?thesis by (simp add: double_round_def)
next
  case False
  with assms(2) have "0 < x" by simp
  from double_round_between [OF this assms(3)]
  obtain y where y: "double_round x = Num y" "of_int \<lfloor>x\<rfloor> \<le> y" "y \<le> of_int \<lceil>x\<rceil>"
    by blast
  from assms(1) have "of_int \<lfloor>x\<rfloor> = x" "of_int \<lceil>x\<rceil> = x" by (auto elim: Ints_cases)
  with y show ?thesis by simp
qed

lemma double_round_zero [simp]: "double_round 0 = Num 0"
  by (simp add: double_round_def)

lemma double_round_one [simp]: "double_round 1 = Num 1"
  using double_round_whole [of 1] by simp

lemma double_round_numeral [simp]:
  "(numeral k :: real) < 2 ^ 53 \<Longrightarrow> double_round (numeral k) = Num (numeral k)"
  using double_round_whole [of "numeral k"] by simp

text \<open>\<open>ilog2\<close> is the binary exponent: \<open>2^(ilog2 a) <= a < 2^(ilog2 a + 1)\<close>.\<close>

lemma real_pow2_le: "(2::int) ^ k \<le> n \<Longrightarrow> (2::real) ^ k \<le> real_of_int n"
proof -
  assume "(2::int) ^ k \<le> n"
  then have "real_of_int (2 ^ k) \<le> real_of_int n" by (simp only: of_int_le_iff)
  then show ?thesis by simp
qed

lemma real_lt_pow2: "n < (2::int) ^ k \<Longrightarrow> real_of_int n + 1 \<le> (2::real) ^ k"
proof -
  assume "n < (2::int) ^ k"
  then have "n + 1 \<le> 2 ^ k" by simp
  then have "real_of_int (n + 1) \<le> real_of_int (2 ^ k)" by (simp only: of_int_le_iff)
  then show ?thesis by simp
qed

lemma ilog2_bounds:
  assumes "0 < a"
  shows "pow2 (ilog2 a) \<le> a \<and> a < 2 * pow2 (ilog2 a)"
proof (cases "1 \<le> a")
  case True
  define n where "n = \<lfloor>a\<rfloor>"
  have n: "0 < n" using True by (simp add: n_def)
  from bitlen_bounds [OF n]
  have b: "2 ^ nat (bitlen n - 1) \<le> n" "n < 2 ^ nat (bitlen n)" by simp_all
  have k: "1 \<le> bitlen n" using n by (simp add: bitlen_alt_def)
  then have s: "nat (bitlen n) = Suc (nat (bitlen n - 1))" by simp
  have i: "ilog2 a = bitlen n - 1" using True by (simp add: ilog2_def n_def)
  have p: "pow2 (ilog2 a) = 2 ^ nat (bitlen n - 1)" using k by (simp add: i pow2_def)
  have "real_of_int n \<le> a" by (simp add: n_def)
  with real_pow2_le [OF b(1)] have lo: "2 ^ nat (bitlen n - 1) \<le> a" by linarith
  have "a < real_of_int n + 1" by (simp add: n_def)
  with real_lt_pow2 [OF b(2)] have "a < 2 ^ nat (bitlen n)" by linarith
  then have hi: "a < 2 * 2 ^ nat (bitlen n - 1)" by (simp add: s)
  from lo hi show ?thesis by (simp add: p)
next
  case False
  define y where "y = 1 / a"
  define n where "n = \<lceil>y\<rceil> - 1"
  have y: "1 < y" using False assms by (simp add: y_def)
  then have "1 < \<lceil>y\<rceil>" by (simp add: less_ceiling_iff)
  then have n: "0 < n" by (simp add: n_def)
  from bitlen_bounds [OF n]
  have b: "2 ^ nat (bitlen n - 1) \<le> n" "n < 2 ^ nat (bitlen n)" by simp_all
  have k: "1 \<le> bitlen n" using n by (simp add: bitlen_alt_def)
  then have s: "nat (bitlen n) = Suc (nat (bitlen n - 1))" by simp
  have i: "ilog2 a = - bitlen n" using False by (simp add: ilog2_def n_def y_def)
  have p: "pow2 (ilog2 a) = 1 / 2 ^ nat (bitlen n)" using k by (simp add: i pow2_def)
  have "y \<le> real_of_int n + 1" by (simp add: n_def)
  with real_lt_pow2 [OF b(2)] have yhi: "y \<le> 2 ^ nat (bitlen n)" by linarith
  have "real_of_int n < y" by (simp add: n_def) linarith
  with real_pow2_le [OF b(1)] have ylo: "2 ^ nat (bitlen n - 1) < y" by linarith
  have lo: "1 / 2 ^ nat (bitlen n) \<le> a"
    using yhi assms by (simp add: y_def field_simps)
  have "a * 2 ^ nat (bitlen n - 1) < 1"
    using ylo assms by (simp add: y_def field_simps)
  then have hi: "a < 2 * (1 / 2 ^ nat (bitlen n))"
    by (simp add: s field_simps)
  from lo hi show ?thesis by (simp add: p)
qed

subsection \<open>Doubles at the ratios 1.2, 2.55 and 2.625\<close>

lemma ilog2_ratio_a: "ilog2 \<bar>1.2\<bar> = 0"
  by (simp add: ilog2_def compute_bitlen)

lemma double_ratio_a: "double_round 1.2 = Num (5404319552844595 / 4503599627370496)"
  unfolding double_round_def Let_def ilog2_ratio_a
  by (simp add: pow2_def round_even_def Let_def)

lemma ilog2_product_a: "ilog2 \<bar>420 * (5404319552844595 / 4503599627370496)\<bar> = 8"
  by (simp add: ilog2_def compute_bitlen)

lemma double_product_a: "double_round (420 * (5404319552844595 / 4503599627370496)) = Num 504"
  unfolding double_round_def Let_def ilog2_product_a
  by (simp add: pow2_def round_even_def Let_def)

lemma ilog2_ratio_b: "ilog2 \<bar>2.55\<bar> = 1"
  by (simp add: ilog2_def compute_bitlen)

lemma double_ratio_b: "double_round 2.55 = Num (2871044762448691 / 1125899906842624)"
  unfolding double_round_def Let_def ilog2_ratio_b
  by (simp add: pow2_def round_even_def Let_def)

lemma ilog2_product_b: "ilog2 \<bar>100 * (2871044762448691 / 1125899906842624)\<bar> = 7"
  by (simp add: ilog2_def compute_bitlen)

lemma double_product_b:
  "double_round (100 * (2871044762448691 / 1125899906842624))
     = Num (8972014882652159 / 35184372088832)"
  unfolding double_round_def Let_def ilog2_product_b
  by (simp add: pow2_def round_even_def Let_def)

lemma ilog2_ratio_c: "ilog2 \<bar>2.625\<bar> = 1"
  by (simp add: ilog2_def compute_bitlen)

lemma double_ratio_c: "double_round 2.625 = Num 2.625"
  unfolding double_round_def Let_def ilog2_ratio_c
  by (simp add: pow2_def round_even_def Let_def)

lemma ilog2_product_c: "ilog2 \<bar>375 * 2.625\<bar> = 9"
  by (simp add: ilog2_def compute_bitlen)

lemma double_product_c: "double_round (375 * 2.625) = Num 984.375"
  unfolding double_round_def Let_def ilog2_product_c
  by (simp add: pow2_def round_even_def Let_def)

section \<open>The size of the canvas\<close>

lemma set_canvas_dim_floor:
  fixes r :: real
  assumes "0 \<le> r" "r < 2 ^ 31"
  shows "set_canvas_dim dflt (Num r) = nat \<lfloor>r\<rfloor>"
proof -
  have f0: "0 \<le> \<lfloor>r\<rfloor>" using assms(1) by simp
  have "\<lfloor>r\<rfloor> < 2 ^ 31" using assms(2) by (simp add: floor_less_iff)
  then have f1: "\<lfloor>r\<rfloor> < 2147483648" by simp
  then have "\<lfloor>r\<rfloor> mod 2 ^ 32 = \<lfloor>r\<rfloor>" using f0 by simp
  then have "to_unsigned_long (Num r) = nat \<lfloor>r\<rfloor>"
    using assms(1) by (simp add: trunc_real_def)
  moreover have "nat \<lfloor>r\<rfloor> \<le> 2147483647" using f0 f1 by linarith
  ultimately show ?thesis by (simp add: set_canvas_dim_def)
qed

lemma set_canvas_dim_zero: "set_canvas_dim dflt (js_double (js_mul (Num 0) x)) = 0"
  by (cases x) (simp_all add: set_canvas_dim_def trunc_real_def)

text \<open>What \<^verbatim>\<open>resize\<close> assigns to the width and the height of the canvas.\<close>

lemma resize_canvas:
  "canvas_width (resize d cw ch s) =
     set_canvas_dim 300 (js_double (js_mul (Num (of_int (min cw (min ch 420))))
       (if js_truthy (js_double d) then js_double d else Num 1)))"
  "canvas_height (resize d cw ch s) =
     set_canvas_dim 150 (js_double (js_mul (Num (of_int (min cw (min ch 420))))
       (if js_truthy (js_double d) then js_double d else Num 1)))"
  by (simp_all add: resize_def Let_def)

text \<open>
  The edge for a positive product below \<open>2^31 - 1\<close>: the double product, truncated, which
  lies between the exact product rounded down and rounded up.
\<close>

lemma canvas_dim_product:
  fixes x :: real
  assumes "0 \<le> x" "x \<le> 2147483647"
  shows "set_canvas_dim dflt (double_round x) = nat \<lfloor>num_value (double_round x)\<rfloor> \<and>
         nat \<lfloor>x\<rfloor> \<le> set_canvas_dim dflt (double_round x) \<and>
         set_canvas_dim dflt (double_round x) \<le> nat \<lceil>x\<rceil>"
proof (cases "x = 0")
  case True
  then show ?thesis by (simp add: set_canvas_dim_def trunc_real_def)
next
  case False
  with assms(1) have pos: "0 < x" by simp
  have "x < 2 ^ 53" using assms(2) by simp
  from double_round_between [OF pos this]
  obtain y where y: "double_round x = Num y" "of_int \<lfloor>x\<rfloor> \<le> y" "y \<le> of_int \<lceil>x\<rceil>"
    by blast
  have "0 \<le> \<lfloor>x\<rfloor>" using assms(1) by simp
  then have "(0::real) \<le> of_int \<lfloor>x\<rfloor>" by simp
  with y(2) have y0: "0 \<le> y" by linarith
  have "\<lceil>x\<rceil> \<le> 2147483647" using assms(2) by (simp add: ceiling_le_iff)
  then have "real_of_int \<lceil>x\<rceil> \<le> 2147483647" by linarith
  with y(3) have "y \<le> 2147483647" by linarith
  then have y1: "y < 2 ^ 31" by simp
  have e: "set_canvas_dim dflt (Num y) = nat \<lfloor>y\<rfloor>" using y0 y1 by (rule set_canvas_dim_floor)
  have "\<lfloor>x\<rfloor> \<le> \<lfloor>y\<rfloor>" using y(2) by (simp add: le_floor_iff)
  moreover have "\<lfloor>y\<rfloor> \<le> \<lceil>x\<rceil>" using y(3) by (simp add: floor_le_iff)
  ultimately have "nat \<lfloor>x\<rfloor> \<le> nat \<lfloor>y\<rfloor>" "nat \<lfloor>y\<rfloor> \<le> nat \<lceil>x\<rceil>"
    by linarith+
  then show ?thesis using y(1) e by simp
qed

text \<open>
  A container of 420 by 420 at ratio 1.2 gets 504 pixels (the exact product of 420 and
  the double 1.2 is below 504, the double product is 504), and one of 100 by 100 at
  ratio 2.55 gets 254 pixels.
\<close>

lemma resize_ratio_a: "canvas_width (resize (Num 1.2) 420 420 s) = 504"
  using double_ratio_a double_product_a
  by (simp add: resize_canvas set_canvas_dim_def trunc_real_def)

lemma resize_ratio_b: "canvas_width (resize (Num 2.55) 100 100 s) = 254"
  using double_ratio_b double_product_b
  by (simp add: resize_canvas set_canvas_dim_def trunc_real_def)

lemma resize_ratio_c: "canvas_width (resize (Num 2.625) 375 375 s) = 984"
  using double_ratio_c double_product_c
  by (simp add: resize_canvas set_canvas_dim_def trunc_real_def)

section \<open>What the energy setter stores\<close>

lemma setEnergy_numbers:
  "ttsEnergy (sphereSetTTSEnergy (Num r) s) = Num (clamp_spec r 0 1)"
  "r < 0 \<Longrightarrow> ttsEnergy (sphereSetTTSEnergy (Num r) s) = Num 0"
  "1 < r \<Longrightarrow> ttsEnergy (sphereSetTTSEnergy (Num r) s) = Num 1"
  "0 \<le> r \<Longrightarrow> r \<le> 1 \<Longrightarrow> ttsEnergy (sphereSetTTSEnergy (Num r) s) = Num r"
  "ttsEnergy (sphereSetTTSEnergy PInf s) = Num 1"
  "ttsEnergy (sphereSetTTSEnergy NInf s) = Num 0"
  "x \<noteq> NaN \<Longrightarrow> in_unit (ttsEnergy (sphereSetTTSEnergy x s))"
  by (simp_all add: sphereSetTTSEnergy_def clamp_spec_def js_clamp_unit)

section \<open>The claims\<close>

text \<open>
  C1. On every frame of the render loop the new smoothed energy is
  \<open>prev + (target - prev) * 0.12\<close>, where the target is the raw energy while speech is
  active and 0 otherwise; and a frame is the only thing that changes the smoothed
  energy: the API functions, the pulse callback, the resize handler and the unload
  handler leave it as it is.
\<close>

theorem draw_smoothing_step:
  "ttsEnergySmooth (draw s) =
     js_add (ttsEnergySmooth s)
       (js_mul (js_sub (if ttsActive s then ttsEnergy s else Num 0) (ttsEnergySmooth s))
          (Num 0.12)) \<and>
   (ttsEnergySmooth s = Num prev \<and>
    (if ttsActive s then ttsEnergy s else Num 0) = Num target \<longrightarrow>
      ttsEnergySmooth (draw s) = Num (prev + (target - prev) * 0.12)) \<and>
   ttsEnergySmooth (sphereSetTTSActive a s) = ttsEnergySmooth s \<and>
   ttsEnergySmooth (sphereSetTTSEnergy x s) = ttsEnergySmooth s \<and>
   ttsEnergySmooth (sphereStartTTSPulse h s) = ttsEnergySmooth s \<and>
   ttsEnergySmooth (sphereStopTTSPulse s) = ttsEnergySmooth s \<and>
   ttsEnergySmooth (pulse_tick rnd now s) = ttsEnergySmooth s \<and>
   ttsEnergySmooth (resize d cw ch s) = ttsEnergySmooth s \<and>
   ttsEnergySmooth (beforeunload s) = ttsEnergySmooth s"
proof (intro conjI impI)
  show "ttsEnergySmooth (draw s) =
     js_add (ttsEnergySmooth s)
       (js_mul (js_sub (if ttsActive s then ttsEnergy s else Num 0) (ttsEnergySmooth s))
          (Num 0.12))"
    by (simp add: draw_def Let_def)
  then show "ttsEnergySmooth (draw s) = Num (prev + (target - prev) * 0.12)"
    if "ttsEnergySmooth s = Num prev \<and>
        (if ttsActive s then ttsEnergy s else Num 0) = Num target"
    using that by simp
  show "ttsEnergySmooth (sphereSetTTSActive a s) = ttsEnergySmooth s"
    by (simp add: sphereSetTTSActive_def Let_def)
  show "ttsEnergySmooth (sphereSetTTSEnergy x s) = ttsEnergySmooth s"
    by (simp add: sphereSetTTSEnergy_def)
  show "ttsEnergySmooth (sphereStartTTSPulse h s) = ttsEnergySmooth s"
    by (simp add: sphereStartTTSPulse_def clearInterval_def Let_def split: option.splits)
  show "ttsEnergySmooth (sphereStopTTSPulse s) = ttsEnergySmooth s"
    by (simp add: sphereStopTTSPulse_def clearInterval_def Let_def split: option.splits)
  show "ttsEnergySmooth (pulse_tick rnd now s) = ttsEnergySmooth s"
    by (simp add: pulse_tick_def)
  show "ttsEnergySmooth (resize d cw ch s) = ttsEnergySmooth s"
    by (simp add: resize_def Let_def)
  show "ttsEnergySmooth (beforeunload s) = ttsEnergySmooth s"
    by (simp add: beforeunload_def clearInterval_def split: option.splits)
qed

text \<open>Speech active, raw energy 0.5, smoothed energy 0: the next frame shows 0.06.\<close>

theorem draw_smoothing_step_witness:
  "ttsEnergySmooth
     (sphereSetTTSEnergy (Num 0.5) (sphereSetTTSActive True (startup (Num 1) 300 300))) = Num 0 \<and>
   (if ttsActive
         (sphereSetTTSEnergy (Num 0.5) (sphereSetTTSActive True (startup (Num 1) 300 300)))
    then ttsEnergy
         (sphereSetTTSEnergy (Num 0.5) (sphereSetTTSActive True (startup (Num 1) 300 300)))
    else Num 0) = Num 0.5 \<and>
   ttsEnergySmooth
     (draw (sphereSetTTSEnergy (Num 0.5) (sphereSetTTSActive True (startup (Num 1) 300 300))))
     = Num 0.06"
  using draw_smoothing_step
    [of "sphereSetTTSEnergy (Num 0.5) (sphereSetTTSActive True (startup (Num 1) 300 300))"
        0 "0.5"]
  by (simp add: sphereSetTTSEnergy_def sphereSetTTSActive_def startup_def draw_def
        resize_def initial_def Let_def)



text \<open>
  C3. The claim is that \<^verbatim>\<open>sphereSetTTSEnergy\<close> stores \<open>clamp(x, 0, 1)\<close> for every input.
  It does for every finite value and for the infinities (\<open>setEnergy_numbers\<close>). For
  \<open>NaN\<close> it stores \<open>NaN\<close>: the stored value is not in \<open>[0, 1]\<close> and is not the clamp of
  anything.
\<close>

theorem setEnergy_NaN_not_clamped:
  "ttsEnergy (sphereSetTTSEnergy NaN s) = NaN \<and>
   \<not> js_le (Num 0) (ttsEnergy (sphereSetTTSEnergy NaN s)) \<and>
   \<not> js_le (ttsEnergy (sphereSetTTSEnergy NaN s)) (Num 1) \<and>
   \<not> in_unit (ttsEnergy (sphereSetTTSEnergy NaN s)) \<and>
   (\<forall>r. ttsEnergy (sphereSetTTSEnergy NaN s) \<noteq> Num (clamp_spec r 0 1))"
  by (simp add: sphereSetTTSEnergy_def)

text \<open>
  C4. \<^verbatim>\<open>sphereSetTTSActive(false)\<close> sets the raw energy to 0 at once, whatever it was,
  and sets the speech flag to false; nothing else changes.
\<close>

theorem setActive_false_zeroes:
  "ttsEnergy (sphereSetTTSActive False s) = Num 0 \<and>
   ttsActive (sphereSetTTSActive False s) = False \<and>
   sphereSetTTSActive False s = s\<lparr>ttsActive := False, ttsEnergy := Num 0\<rparr>"
  by (simp add: sphereSetTTSActive_def Let_def)

theorem setActive_false_zeroes_witness:
  "ttsEnergy (sphereSetTTSEnergy (Num 0.75) (startup (Num 1) 300 300)) = Num 0.75 \<and>
   ttsEnergy (sphereSetTTSActive False
     (sphereSetTTSEnergy (Num 0.75) (startup (Num 1) 300 300))) = Num 0"
  using setActive_false_zeroes [of "sphereSetTTSEnergy (Num 0.75) (startup (Num 1) 300 300)"]
  by (simp add: sphereSetTTSEnergy_def)

text \<open>
  C5. The claim is that both energies stay in \<open>[0, 1]\<close> under every operation. The code
  keeps them there (\<open>energy_inv_preserved\<close>, with the pulse between 0.1 and 1) except
  in one case: \<^verbatim>\<open>sphereSetTTSEnergy(NaN)\<close> stores \<open>NaN\<close>, because \<^verbatim>\<open>Math.max(0, NaN)\<close>
  and \<^verbatim>\<open>Math.min(1, NaN)\<close> are \<open>NaN\<close>. The raw energy is then outside \<open>[0, 1]\<close>, and
  while speech is active the next frame assigns \<open>NaN\<close> to the smoothed energy as
  well.
\<close>

theorem energy_invariant_broken_by_NaN:
  "ttsEnergy (sphereSetTTSEnergy NaN (startup (Num 1) 300 300)) = NaN \<and>
   \<not> in_unit (ttsEnergy (sphereSetTTSEnergy NaN (startup (Num 1) 300 300))) \<and>
   ttsEnergySmooth
     (draw (sphereSetTTSEnergy NaN (sphereSetTTSActive True (startup (Num 1) 300 300)))) = NaN \<and>
   \<not> in_unit (ttsEnergySmooth
     (draw (sphereSetTTSEnergy NaN (sphereSetTTSActive True (startup (Num 1) 300 300)))))"
  by (simp add: sphereSetTTSEnergy_def sphereSetTTSActive_def startup_def draw_def
        resize_def initial_def js_sub_def Let_def)

text \<open>
  C6. In every reachable state at most one pulse timer is active. Starting the pulse,
  whether or not one is running, leaves exactly one active timer, the new one, which
  the handle then names: a timer that ran before has been cancelled.
\<close>

theorem start_single_generator:
  assumes "reachable s"
  shows "finite (timers s) \<and> card (timers s) \<le> 1 \<and>
         timers (sphereStartTTSPulse h s) = {h} \<and>
         card (timers (sphereStartTTSPulse h s)) = 1 \<and>
         ttsSimInterval (sphereStartTTSPulse h s) = Some h \<and>
         (\<forall>old. ttsSimInterval s = Some old \<and> old \<noteq> h \<longrightarrow>
            old \<notin> timers (sphereStartTTSPulse h s))"
proof -
  have i: "handle_inv s" using assms by (rule reachable_handle_inv)
  have t: "timers (sphereStartTTSPulse h s) = {h}" using i by (rule handle_inv_start)
  have "ttsSimInterval (sphereStartTTSPulse h s) = Some h"
    by (simp add: sphereStartTTSPulse_def clearInterval_def Let_def split: option.splits)
  with t handle_inv_finite [OF i] handle_inv_card [OF i] show ?thesis by simp
qed

text \<open>The pulse runs on timer 1; starting it again gives timer 2 and timer 1 is gone.\<close>

theorem start_single_generator_witness:
  "reachable (sphereStartTTSPulse 1 (startup (Num 1) 300 300)) \<and>
   ttsSimInterval (sphereStartTTSPulse 1 (startup (Num 1) 300 300)) = Some 1 \<and>
   timers (sphereStartTTSPulse 1 (startup (Num 1) 300 300)) = {1} \<and>
   timers (sphereStartTTSPulse 2 (sphereStartTTSPulse 1 (startup (Num 1) 300 300))) = {2} \<and>
   card (timers (sphereStartTTSPulse 2 (sphereStartTTSPulse 1 (startup (Num 1) 300 300)))) = 1 \<and>
   1 \<notin> timers (sphereStartTTSPulse 2 (sphereStartTTSPulse 1 (startup (Num 1) 300 300)))"
proof -
  have t: "timers (sphereStartTTSPulse 1 (startup (Num 1) 300 300)) = {1}"
          "ttsSimInterval (sphereStartTTSPulse 1 (startup (Num 1) 300 300)) = Some 1"
    by (simp_all add: sphereStartTTSPulse_def startup_def draw_def resize_def initial_def
          Let_def)
  from reachable_started t start_single_generator [OF reachable_started, of 2]
  show ?thesis by simp
qed

text \<open>
  C7. \<^verbatim>\<open>sphereStopTTSPulse\<close> is idempotent: calling it twice gives the state that
  calling it once gives. After it speech is inactive and the raw energy is 0, and in
  every reachable state the handle is cleared and no pulse timer is left. When no
  pulse is running it only resets the flag and the energy.
\<close>

theorem stop_idempotent:
  "sphereStopTTSPulse (sphereStopTTSPulse s) = sphereStopTTSPulse s \<and>
   ttsActive (sphereStopTTSPulse s) = False \<and>
   ttsEnergy (sphereStopTTSPulse s) = Num 0 \<and>
   (reachable s \<longrightarrow>
      ttsSimInterval (sphereStopTTSPulse s) = None \<and> timers (sphereStopTTSPulse s) = {}) \<and>
   (ttsSimInterval s = None \<longrightarrow>
      sphereStopTTSPulse s = s\<lparr>ttsActive := False, ttsEnergy := Num 0\<rparr>)"
proof (intro conjI impI)
  show "sphereStopTTSPulse (sphereStopTTSPulse s) = sphereStopTTSPulse s"
    by (rule stop_twice)
  show "ttsActive (sphereStopTTSPulse s) = False" "ttsEnergy (sphereStopTTSPulse s) = Num 0"
    by (simp_all add: sphereStopTTSPulse_def clearInterval_def Let_def split: option.splits)
  show "ttsSimInterval (sphereStopTTSPulse s) = None" "timers (sphereStopTTSPulse s) = {}"
    if "reachable s"
    using handle_inv_stop [OF reachable_handle_inv [OF that]] by simp_all
  show "sphereStopTTSPulse s = s\<lparr>ttsActive := False, ttsEnergy := Num 0\<rparr>"
    if "ttsSimInterval s = None"
    using that by (simp add: sphereStopTTSPulse_def Let_def)
qed

text \<open>Stopping the pulse that runs on timer 1, and stopping when nothing runs.\<close>

theorem stop_idempotent_witness:
  "reachable (sphereStartTTSPulse 1 (startup (Num 1) 300 300)) \<and>
   timers (sphereStartTTSPulse 1 (startup (Num 1) 300 300)) = {1} \<and>
   sphereStopTTSPulse (sphereStopTTSPulse (sphereStartTTSPulse 1 (startup (Num 1) 300 300))) =
     sphereStopTTSPulse (sphereStartTTSPulse 1 (startup (Num 1) 300 300)) \<and>
   ttsSimInterval (sphereStopTTSPulse (sphereStartTTSPulse 1 (startup (Num 1) 300 300)))
     = None \<and>
   timers (sphereStopTTSPulse (sphereStartTTSPulse 1 (startup (Num 1) 300 300))) = {} \<and>
   ttsSimInterval (startup (Num 1) 300 300) = None \<and>
   sphereStopTTSPulse (startup (Num 1) 300 300) = startup (Num 1) 300 300"
proof -
  have t: "timers (sphereStartTTSPulse 1 (startup (Num 1) 300 300)) = {1}"
    by (simp add: sphereStartTTSPulse_def startup_def draw_def resize_def initial_def Let_def)
  have n: "ttsSimInterval (startup (Num 1) 300 300) = None"
    by (simp add: startup_def draw_def resize_def initial_def Let_def)
  have "(startup (Num 1) 300 300)\<lparr>ttsActive := False, ttsEnergy := Num 0\<rparr>
          = startup (Num 1) 300 300"
    by (simp add: startup_def draw_def resize_def initial_def Let_def)
  with reachable_started t n
    stop_idempotent [of "sphereStartTTSPulse 1 (startup (Num 1) 300 300)"]
    stop_idempotent [of "startup (Num 1) 300 300"]
  show ?thesis by simp
qed

text \<open>
  C8, as amended. \<^verbatim>\<open>resize\<close> caps the edge of the surface at 420 units: the style
  size is \<open>min(clientWidth, clientHeight, 420)\<close>. For a pixel density whose double \<open>d\<close>
  is positive with \<open>420 * d <= 2^31 - 1\<close>, the buffer edge is the double product of that
  size and \<open>d\<close>, truncated to a whole number of device pixels. It lies between the
  exact product rounded down and rounded up, and is the product itself whenever the
  product is a whole number, as for a container of 1000 by 1000 at density 2, where
  the buffer is 840 by 840 and not 2000 by 2000.
\<close>

theorem resize_buffer_edge:
  assumes "0 \<le> cw" "0 \<le> ch" "js_double d0 = Num d" "0 < d" "420 * d \<le> 2147483647"
  shows "style_width (resize d0 cw ch s) = Some (min cw (min ch 420)) \<and>
         style_height (resize d0 cw ch s) = Some (min cw (min ch 420)) \<and>
         min cw (min ch 420) \<le> 420 \<and>
         canvas_width (resize d0 cw ch s) =
           nat \<lfloor>num_value (double_round (of_int (min cw (min ch 420)) * d))\<rfloor> \<and>
         canvas_height (resize d0 cw ch s) = canvas_width (resize d0 cw ch s) \<and>
         nat \<lfloor>of_int (min cw (min ch 420)) * d\<rfloor> \<le> canvas_width (resize d0 cw ch s) \<and>
         canvas_width (resize d0 cw ch s) \<le> nat \<lceil>of_int (min cw (min ch 420)) * d\<rceil> \<and>
         (of_int (min cw (min ch 420)) * d \<in> \<int> \<longrightarrow>
            real (canvas_width (resize d0 cw ch s)) = of_int (min cw (min ch 420)) * d)"
proof -
  let ?size = "min cw (min ch 420)"
  let ?x = "real_of_int ?size * d"
  have s0: "0 \<le> ?size" and s1: "?size \<le> 420" using assms(1,2) by simp_all
  have x0: "0 \<le> ?x" using s0 assms(4) by simp
  have "?x \<le> 420 * d" using s1 assms(4) by simp
  then have x1: "?x \<le> 2147483647" using assms(5) by linarith
  have t: "js_truthy (js_double d0)" using assms(3,4) by simp
  have w: "canvas_width (resize d0 cw ch s) = set_canvas_dim 300 (double_round ?x)"
    and h: "canvas_height (resize d0 cw ch s) = set_canvas_dim 150 (double_round ?x)"
    using t assms(3) by (simp_all add: resize_canvas)
  note pw = canvas_dim_product [OF x0 x1, of 300]
  note ph = canvas_dim_product [OF x0 x1, of 150]
  have st: "style_width (resize d0 cw ch s) = Some ?size"
           "style_height (resize d0 cw ch s) = Some ?size"
    by (simp_all add: resize_def Let_def)
  have whole: "real (canvas_width (resize d0 cw ch s)) = ?x" if "?x \<in> \<int>"
  proof -
    from that obtain k where k: "?x = of_int k" by (rule Ints_cases)
    then have "0 \<le> k" using x0 by simp
    moreover have "nat k \<le> canvas_width (resize d0 cw ch s)"
      "canvas_width (resize d0 cw ch s) \<le> nat k"
      using pw unfolding w k by simp_all
    ultimately show ?thesis unfolding k by simp
  qed
  from pw ph w h st s1 whole show ?thesis by simp
qed

theorem resize_buffer_edge_witness:
  "(0::int) \<le> 1000 \<and> js_double (Num 2) = Num 2 \<and> (0::real) < 2 \<and>
   (420::real) * 2 \<le> 2147483647 \<and>
   real_of_int (min 1000 (min 1000 420)) * 2 \<in> \<int> \<and>
   canvas_width (resize (Num 2) 1000 1000 (startup (Num 2) 300 300)) = 840 \<and>
   canvas_height (resize (Num 2) 1000 1000 (startup (Num 2) 300 300)) = 840 \<and>
   style_width (resize (Num 2) 1000 1000 (startup (Num 2) 300 300)) = Some 420 \<and>
   style_height (resize (Num 2) 1000 1000 (startup (Num 2) 300 300)) = Some 420 \<and>
   canvas_width (resize (Num 2) 1000 1000 (startup (Num 2) 300 300)) \<noteq> 2000"
proof -
  have d: "js_double (Num 2) = Num 2" by simp
  have "real_of_int (min 1000 (min 1000 420)) * 2 \<in> \<int>" by simp
  with d resize_buffer_edge [of 1000 1000 "Num 2" 2 "startup (Num 2) 300 300"]
  show ?thesis by simp
qed

text \<open>
  C8 as stated fails when the product is not a whole number: a container of 375 by 375
  at density 2.625 gets a buffer of 984 pixels, not 984.375.
\<close>

theorem resize_fractional_density_counterexample:
  "canvas_width (resize (Num 2.625) 375 375 (startup (Num 2.625) 375 375)) = 984 \<and>
   real (canvas_width (resize (Num 2.625) 375 375 (startup (Num 2.625) 375 375)))
     \<noteq> real_of_int (min 375 (min 375 420)) * 2.625"
  using resize_ratio_c [of "startup (Num 2.625) 375 375"] by simp

text \<open>
  C9, as amended. \<^verbatim>\<open>resize\<close> has no failing branch, and with a container of width 0
  or height 0 every size it sets is exactly 0, for any pixel density: none is negative
  or \<open>NaN\<close>, and no minimum above zero is applied.
\<close>

theorem resize_zero_container:
  assumes "0 \<le> cw" "0 \<le> ch" "cw = 0 \<or> ch = 0"
  shows "canvas_width (resize d cw ch s) = 0 \<and>
         canvas_height (resize d cw ch s) = 0 \<and>
         style_width (resize d cw ch s) = Some 0 \<and>
         style_height (resize d cw ch s) = Some 0"
proof -
  have "min cw (min ch 420) = 0" using assms by auto
  then show ?thesis by (simp add: resize_def Let_def set_canvas_dim_zero)
qed

theorem resize_zero_container_witness:
  "(0::int) \<le> 0 \<and> (0::int) \<le> 300 \<and> ((0::int) = 0 \<or> (300::int) = 0) \<and>
   canvas_width (resize (Num 2) 0 300 (startup (Num 2) 300 300)) = 0 \<and>
   canvas_height (resize (Num 2) 0 300 (startup (Num 2) 300 300)) = 0 \<and>
   style_width (resize (Num 2) 0 300 (startup (Num 2) 300 300)) = Some 0 \<and>
   style_height (resize (Num 2) 0 300 (startup (Num 2) 300 300)) = Some 0"
  using resize_zero_container [of 0 300 "Num 2" "startup (Num 2) 300 300"]
  by simp

text \<open>
  C9 as stated fails: with a container of 0 by 0 the size is 0, not a minimum size
  greater than zero.
\<close>

theorem resize_zero_no_minimum_counterexample:
  "style_width (resize (Num 1) 0 0 (startup (Num 1) 300 300)) = Some 0 \<and>
   canvas_width (resize (Num 1) 0 0 (startup (Num 1) 300 300)) = 0 \<and>
   \<not> 0 < canvas_width (resize (Num 1) 0 0 (startup (Num 1) 300 300)) \<and>
   \<not> 0 < canvas_height (resize (Num 1) 0 0 (startup (Num 1) 300 300))"
  by (simp add: resize_def set_canvas_dim_def trunc_real_def Let_def)

text \<open>
  C10. \<^verbatim>\<open>sphereSetTTSActive(true)\<close> changes the speech flag and nothing else: the raw
  energy, the smoothed energy, the handle and the timers are as before.
\<close>

theorem setActive_true_frame:
  "sphereSetTTSActive True s = s\<lparr>ttsActive := True\<rparr> \<and>
   ttsActive (sphereSetTTSActive True s) = True \<and>
   ttsEnergy (sphereSetTTSActive True s) = ttsEnergy s \<and>
   ttsEnergySmooth (sphereSetTTSActive True s) = ttsEnergySmooth s \<and>
   ttsSimInterval (sphereSetTTSActive True s) = ttsSimInterval s \<and>
   timers (sphereSetTTSActive True s) = timers s"
  by (simp add: sphereSetTTSActive_def Let_def)

theorem setActive_true_frame_witness:
  "ttsEnergy (sphereSetTTSActive True
     (sphereSetTTSEnergy (Num 0.75) (startup (Num 1) 300 300))) = Num 0.75 \<and>
   ttsActive (sphereSetTTSActive True
     (sphereSetTTSEnergy (Num 0.75) (startup (Num 1) 300 300))) = True"
  using setActive_true_frame [of "sphereSetTTSEnergy (Num 0.75) (startup (Num 1) 300 300)"]
  by (simp add: sphereSetTTSEnergy_def)


end
